theory Spec2Isabelle
  imports Main "HOL-Library.Word"
begin

unbundle bit_operations_syntax

section \<open>Data model\<close>

type_synonym u32 = "32 word"
type_synonym u64 = "64 word"

text \<open>
  The operation kinds handed to \<^verbatim>\<open>DCOPY_encode_operation\<close> in \<^verbatim>\<open>treewalk.c\<close>.
  Only \<^verbatim>\<open>TREEWALK\<close> and \<^verbatim>\<open>COPY\<close> occur in this file; the kinds of later stages
  are not produced here.
\<close>

datatype DCOPY_operation_code_t = TREEWALK | COPY

text \<open>
  Modelled from the spec: the declaration of \<^verbatim>\<open>DCOPY_operation_t\<close> (\<^verbatim>\<open>dcp.h\<close>) is
  missing. The fields are those the source reads (\<^verbatim>\<open>op->chunk\<close>, \<^verbatim>\<open>op->operand\<close>,
  \<^verbatim>\<open>op->source_base_offset\<close>, \<^verbatim>\<open>op->dest_base_appendix\<close>, \<^verbatim>\<open>op->file_size\<close>) plus
  the kind, which is the first argument of \<^verbatim>\<open>DCOPY_encode_operation\<close>. The chunk index
  has the type of the loop variable \<^verbatim>\<open>uint32_t chunk_index\<close>, the size the type of the
  parameter \<^verbatim>\<open>uint64_t file_size\<close>; \<^verbatim>\<open>source_base_offset\<close> is the spec's
  "integer count of leading characters"; \<^verbatim>\<open>dest_base_appendix\<close> is a pointer
  compared with \<^verbatim>\<open>NULL\<close>, hence an option. A C string is the list of the bytes
  before its terminating NUL.
\<close>

record operation =
  kind :: DCOPY_operation_code_t
  chunk :: u32
  operand :: string
  source_base_offset :: nat
  dest_base_appendix :: "string option"
  file_size :: u64

text \<open>
  \<^verbatim>\<open>DCOPY_user_opts\<close>: the declaration of \<^verbatim>\<open>DCOPY_options_t\<close> is missing; these are
  the two fields \<^verbatim>\<open>treewalk.c\<close> reads.
\<close>

record DCOPY_options_t =
  dest_path :: string
  reliable_filesystem :: bool

text \<open>
  \<^verbatim>\<open>struct stat\<close>, with the two fields the source reads. \<^verbatim>\<open>st_size\<close> is kept as its 64
  bits, so that the cast \<^verbatim>\<open>(uint64_t)statbuf.st_size\<close> is the identity.
\<close>

record stat =
  st_mode :: u32
  st_size :: u64

text \<open>The file type macros of \<^verbatim>\<open><sys/stat.h>\<close> (octal 0170000, 0040000, 0100000, 0120000).\<close>

definition S_IFMT :: u32 where "S_IFMT = 0xF000"
definition S_IFDIR :: u32 where "S_IFDIR = 0x4000"
definition S_IFREG :: u32 where "S_IFREG = 0x8000"
definition S_IFLNK :: u32 where "S_IFLNK = 0xA000"

definition S_ISDIR :: "u32 \<Rightarrow> bool" where
  "S_ISDIR m \<longleftrightarrow> (m AND S_IFMT) = S_IFDIR"

definition S_ISREG :: "u32 \<Rightarrow> bool" where
  "S_ISREG m \<longleftrightarrow> (m AND S_IFMT) = S_IFREG"

definition S_ISLNK :: "u32 \<Rightarrow> bool" where
  "S_ISLNK m \<longleftrightarrow> (m AND S_IFMT) = S_IFLNK"

definition EXIT_FAILURE :: nat where "EXIT_FAILURE = 1"

text \<open>
  The answers of the system to the calls the code makes: \<^verbatim>\<open>lstat\<close> fills a
  \<^verbatim>\<open>struct stat\<close> or fails (\<open>None\<close>, a negative return value); \<^verbatim>\<open>popen\<close> returns a
  stream for the command (\<open>True\<close>) or \<^verbatim>\<open>NULL\<close> (\<open>False\<close>: no pipe, no child process);
  \<^verbatim>\<open>opendir\<close> fails (\<open>None\<close>, a \<^verbatim>\<open>NULL\<close> stream) or gives a stream from which
  \<^verbatim>\<open>readdir\<close> yields the listed names in turn.
\<close>

record sys =
  lstat :: "string \<Rightarrow> stat option"
  popen :: "string \<Rightarrow> bool"
  opendir :: "string \<Rightarrow> string list option"

text \<open>
  What a call does, in order: the system calls it makes and the items it hands to
  \<^verbatim>\<open>handle->enqueue\<close>; and how it ends. \<open>Popen\<close> is a \<^verbatim>\<open>popen\<close> that returned a stream,
  followed by \<^verbatim>\<open>pclose\<close>, which waits for the command: the shell has run it.
  \<open>PopenFailed\<close> is a \<^verbatim>\<open>popen\<close> that returned \<^verbatim>\<open>NULL\<close>: no command has run.
  Logging is left out.

  A call ends by returning, in \<^verbatim>\<open>exit\<close> with a status, or abnormally: the source
  hands the result of \<^verbatim>\<open>popen\<close> to \<^verbatim>\<open>pclose\<close> unchecked, and \<^verbatim>\<open>pclose\<close> on a \<^verbatim>\<open>NULL\<close>
  stream reads through the null pointer, which kills the process (\<open>Crashed\<close>).
\<close>

datatype 'w event =
  Lstat string | Popen string | PopenFailed string | Opendir string | Enqueue 'w | Closedir string

datatype status = Returned | Exited nat | Crashed

fun enqueued :: "'w event list \<Rightarrow> 'w list" where
  "enqueued [] = []"
| "enqueued (Enqueue w # es) = w # enqueued es"
| "enqueued (e # es) = enqueued es"

text \<open>
  \<^verbatim>\<open>strncmp\<close> on C strings: bytes are compared as unsigned values, the end of the
  list reads as the terminating NUL, and the comparison stops after \<open>n\<close> bytes or at
  a NUL.
\<close>

fun strncmp :: "string \<Rightarrow> string \<Rightarrow> nat \<Rightarrow> int" where
  "strncmp s1 s2 0 = 0"
| "strncmp s1 s2 (Suc n) =
     (let c1 = (case s1 of [] \<Rightarrow> 0 | c # _ \<Rightarrow> (of_char c :: nat));
          c2 = (case s2 of [] \<Rightarrow> 0 | c # _ \<Rightarrow> (of_char c :: nat))
      in if c1 \<noteq> c2 then int c1 - int c2
         else if c1 = 0 then 0
         else strncmp (tl s1) (tl s2) n)"

section \<open>The path classifier\<close>

definition DCOPY_is_directory :: "sys \<Rightarrow> string \<Rightarrow> bool" where
  "DCOPY_is_directory sy path =
     (case lstat sy path of
        None \<Rightarrow> False
      | Some statbuf \<Rightarrow> S_ISDIR (st_mode statbuf) \<and> \<not> S_ISLNK (st_mode statbuf))"

definition DCOPY_is_regular_file :: "sys \<Rightarrow> string \<Rightarrow> bool" where
  "DCOPY_is_regular_file sy path =
     (case lstat sy path of
        None \<Rightarrow> False
      | Some statbuf \<Rightarrow> S_ISREG (st_mode statbuf) \<and> \<not> S_ISLNK (st_mode statbuf))"

section \<open>The file chunker\<close>

text \<open>
  \<^verbatim>\<open>DCOPY_encode_operation\<close> is not part of \<^verbatim>\<open>treewalk.c\<close>: it is the parameter
  \<open>enc\<close>, applied to the six arguments of each call. \<^verbatim>\<open>DCOPY_CHUNK_SIZE\<close> is a
  macro of \<^verbatim>\<open>dcp.h\<close>, also missing: it is the parameter \<open>cs\<close>, a positive constant
  (spec, section 6) that C converts to \<^verbatim>\<open>uint32_t\<close> in both expressions where it
  occurs, because the other operand is a \<^verbatim>\<open>uint32_t\<close>.

  The loop \<^verbatim>\<open>for(chunk_index = 0; chunk_index < num_chunks; chunk_index++)\<close> returns the
  enqueue events it made together with the final value of \<^verbatim>\<open>chunk_index\<close>, which the
  code after the loop reads.
\<close>

function chunk_loop ::
  "(operation \<Rightarrow> 'w) \<Rightarrow> operation \<Rightarrow> u64 \<Rightarrow> u32 \<Rightarrow> u32 \<Rightarrow> 'w event list \<times> u32" where
  "chunk_loop enc op fsize num_chunks chunk_index =
     (if chunk_index < num_chunks then
        (let newop = enc \<lparr>kind = COPY, chunk = chunk_index, operand = operand op,
                           source_base_offset = source_base_offset op,
                           dest_base_appendix = dest_base_appendix op, file_size = fsize\<rparr>;
             (es, i) = chunk_loop enc op fsize num_chunks (chunk_index + 1)
         in (Enqueue newop # es, i))
      else ([], chunk_index))"
  by pat_completeness auto
termination
proof (relation "measure (\<lambda>(enc, op, fsize, num_chunks, chunk_index). unat num_chunks - unat chunk_index)")
  show "wf (measure (\<lambda>(enc :: operation \<Rightarrow> 'w, op :: operation, fsize :: u64, num_chunks :: u32,
                         chunk_index :: u32). unat num_chunks - unat chunk_index))"
    by simp
next
  fix enc :: "operation \<Rightarrow> 'w" and op :: operation and fsize :: u64
    and num_chunks chunk_index :: u32 and x :: 'w
  assume lt: "chunk_index < num_chunks"
  then have below: "unat chunk_index < unat num_chunks"
    by (simp add: word_less_nat_alt)
  moreover have "unat num_chunks < 2 ^ 32"
    using unsigned_less [of num_chunks] by simp
  ultimately have "unat chunk_index + 1 < 2 ^ 32"
    by simp
  then have "unat (chunk_index + 1) = unat chunk_index + 1"
    by (simp add: unat_word_ariths)
  with below
  show "((enc, op, fsize, num_chunks, chunk_index + 1), (enc, op, fsize, num_chunks, chunk_index))
      \<in> measure (\<lambda>(enc, op, fsize, num_chunks, chunk_index). unat num_chunks - unat chunk_index)"
    by simp
qed

text \<open>
  \<^verbatim>\<open>uint32_t num_chunks = (uint32_t)file_size / DCOPY_CHUNK_SIZE;\<close> the cast binds
  tighter than the division, so the size is cut to its low 32 bits first.
  In \<^verbatim>\<open>num_chunks * DCOPY_CHUNK_SIZE < file_size\<close> the product is a 32-bit product,
  widened to 64 bits for the comparison.
\<close>

definition DCOPY_stat_process_file ::
  "(operation \<Rightarrow> 'w) \<Rightarrow> u32 \<Rightarrow> operation \<Rightarrow> u64 \<Rightarrow> 'w event list" where
  "DCOPY_stat_process_file enc cs op fsize =
     (let num_chunks = (ucast fsize :: u32) div cs;
          (es, chunk_index) = chunk_loop enc op fsize num_chunks 0
      in if (ucast (num_chunks * cs) :: u64) < fsize
         then es @ [Enqueue (enc \<lparr>kind = COPY, chunk = chunk_index, operand = operand op,
                         source_base_offset = source_base_offset op,
                         dest_base_appendix = dest_base_appendix op, file_size = fsize\<rparr>)]
         else es)"

section \<open>The directory expander\<close>

text \<open>
  The loop \<^verbatim>\<open>while((curr_ent = readdir(curr_dir)) != NULL)\<close> over the names the stream
  yields. \<^verbatim>\<open>sprintf(newop_path, "%s/%s", ...)\<close> is the concatenation of its arguments;
  the buffers \<^verbatim>\<open>cmd_buf\<close> and \<^verbatim>\<open>newop_path\<close> are taken to be large enough for what is
  written to them.
\<close>

fun readdir_loop :: "(operation \<Rightarrow> 'w) \<Rightarrow> operation \<Rightarrow> string list \<Rightarrow> 'w event list" where
  "readdir_loop enc op [] = []"
| "readdir_loop enc op (curr_dir_name # ents) =
     (if strncmp curr_dir_name ''.'' 2 \<noteq> 0 \<and> strncmp curr_dir_name ''..'' 3 \<noteq> 0 then
        (let newop_path = operand op @ ''/'' @ curr_dir_name
         in Enqueue (enc \<lparr>kind = TREEWALK, chunk = 0, operand = newop_path,
                           source_base_offset = source_base_offset op,
                           dest_base_appendix = dest_base_appendix op,
                           file_size = file_size op\<rparr>)
            # readdir_loop enc op ents)
      else readdir_loop enc op ents)"

text \<open>
  The destination directory of an operation, as the two \<^verbatim>\<open>sprintf\<close> calls put it
  together after \<^verbatim>\<open>mkdir -p\<close>: \<^verbatim>\<open>op->operand + op->source_base_offset\<close> is the operand
  without its first \<^verbatim>\<open>source_base_offset\<close> bytes (the offset is taken to lie within the
  string). \<open>cmd_buf\<close> is the content of the buffer of that name after \<^verbatim>\<open>sprintf\<close>.
\<close>

definition dest_dir :: "DCOPY_options_t \<Rightarrow> operation \<Rightarrow> string" where
  "dest_dir opts op =
     (case dest_base_appendix op of
        Some appendix \<Rightarrow>
          dest_path opts @ ''/'' @ appendix @ ''/'' @ drop (source_base_offset op) (operand op)
      | None \<Rightarrow> dest_path opts @ ''/'' @ drop (source_base_offset op) (operand op))"

definition cmd_buf :: "DCOPY_options_t \<Rightarrow> operation \<Rightarrow> string" where
  "cmd_buf opts op = ''mkdir -p '' @ dest_dir opts op"

text \<open>
  \<^verbatim>\<open>FILE* p = popen(cmd_buf, "r"); pclose(p);\<close> when \<^verbatim>\<open>popen\<close> gives \<^verbatim>\<open>NULL\<close> the call
  of \<^verbatim>\<open>pclose\<close> ends the process, before \<^verbatim>\<open>opendir\<close> is reached.
  On the retry path the function returns before \<^verbatim>\<open>closedir\<close>.
\<close>

definition DCOPY_stat_process_dir ::
  "(operation \<Rightarrow> 'w) \<Rightarrow> DCOPY_options_t \<Rightarrow> sys \<Rightarrow> operation \<Rightarrow> 'w event list \<times> status" where
  "DCOPY_stat_process_dir enc opts sy op =
     (if \<not> popen sy (cmd_buf opts op) then ([PopenFailed (cmd_buf opts op)], Crashed)
      else case opendir sy (operand op) of
           None \<Rightarrow>
             if reliable_filesystem opts
             then ([Popen (cmd_buf opts op), Opendir (operand op)], Exited EXIT_FAILURE)
             else ([Popen (cmd_buf opts op), Opendir (operand op),
                    Enqueue (enc \<lparr>kind = TREEWALK, chunk = chunk op, operand = operand op,
                                   source_base_offset = source_base_offset op,
                                   dest_base_appendix = dest_base_appendix op,
                                   file_size = file_size op\<rparr>)], Returned)
         | Some ents \<Rightarrow>
             ([Popen (cmd_buf opts op), Opendir (operand op)] @ readdir_loop enc op ents
                @ [Closedir (operand op)], Returned))"

section \<open>The treewalk driver\<close>

definition DCOPY_do_treewalk ::
  "(operation \<Rightarrow> 'w) \<Rightarrow> u32 \<Rightarrow> DCOPY_options_t \<Rightarrow> sys \<Rightarrow> operation \<Rightarrow> 'w event list \<times> status" where
  "DCOPY_do_treewalk enc cs opts sy op =
     (case lstat sy (operand op) of
        None \<Rightarrow>
          if reliable_filesystem opts
          then ([Lstat (operand op)], Exited EXIT_FAILURE)
          else ([Lstat (operand op),
                 Enqueue (enc \<lparr>kind = TREEWALK, chunk = chunk op, operand = operand op,
                                source_base_offset = source_base_offset op,
                                dest_base_appendix = dest_base_appendix op,
                                file_size = file_size op\<rparr>)], Returned)
      | Some statbuf \<Rightarrow>
          if S_ISDIR (st_mode statbuf) \<and> \<not> S_ISLNK (st_mode statbuf) then
            (let (es, st) = DCOPY_stat_process_dir enc opts sy op
             in (Lstat (operand op) # es, st))
          else if S_ISREG (st_mode statbuf) \<and> \<not> S_ISLNK (st_mode statbuf) then
            (Lstat (operand op) # DCOPY_stat_process_file enc cs op (st_size statbuf), Returned)
          else if reliable_filesystem opts
          then ([Lstat (operand op)], Exited EXIT_FAILURE)
          else ([Lstat (operand op),
                 Enqueue (enc \<lparr>kind = TREEWALK, chunk = chunk op, operand = operand op,
                                source_base_offset = source_base_offset op,
                                dest_base_appendix = dest_base_appendix op,
                                file_size = file_size op\<rparr>)], Returned))"

section \<open>The shell command and the directories\<close>

text \<open>
  What the system does with the command of a \<open>Popen\<close> event. \<^verbatim>\<open>popen\<close> hands the text to
  \<^verbatim>\<open>/bin/sh -c\<close>; the source puts the path into the text unquoted. Only texts made of
  plain characters (letters, digits, \<^verbatim>\<open>/ . _ -\<close>) and blanks are given a meaning here:
  the shell splits such a text into fields at the blanks, and \<^verbatim>\<open>mkdir -p\<close> creates each
  operand with all its missing ancestors, an existing directory being no error (each
  creation is taken to succeed; the source does not read the result of the command). A
  text with any other character (quotes, \<^verbatim>\<open>$\<close>, \<^verbatim>\<open>;\<close>, ...) has no meaning in this model
  (\<open>None\<close>).
\<close>

fun fields :: "(char \<Rightarrow> bool) \<Rightarrow> string \<Rightarrow> string \<Rightarrow> string list" where
  "fields sep cur [] = (if cur = [] then [] else [cur])"
| "fields sep cur (c # cs) =
     (if sep c then (if cur = [] then fields sep [] cs else cur # fields sep [] cs)
      else fields sep (cur @ [c]) cs)"

definition sh_blank :: "char \<Rightarrow> bool" where
  "sh_blank c \<longleftrightarrow> c = CHR '' '' \<or> c = CHR 0x09 \<or> c = CHR 0x0A"

definition sh_plain :: "char \<Rightarrow> bool" where
  "sh_plain c \<longleftrightarrow>
     (let n = (of_char c :: nat)
      in (48 \<le> n \<and> n \<le> 57) \<or> (65 \<le> n \<and> n \<le> 90) \<or> (97 \<le> n \<and> n \<le> 122) \<or>
         c = CHR ''/'' \<or> c = CHR ''.'' \<or> c = CHR ''_'' \<or> c = CHR ''-'')"

definition sh_fields :: "string \<Rightarrow> string list" where
  "sh_fields cmd = fields sh_blank [] cmd"

definition is_option :: "string \<Rightarrow> bool" where
  "is_option w = (case w of [] \<Rightarrow> False | c # _ \<Rightarrow> c = CHR ''-'')"

text \<open>The operands that \<^verbatim>\<open>mkdir -p\<close> receives from the shell for a command text.\<close>

definition mkdir_operands :: "string \<Rightarrow> string list option" where
  "mkdir_operands cmd =
     (if list_all (\<lambda>c. sh_plain c \<or> sh_blank c) cmd then
        (case sh_fields cmd of
           prog # opt # paths \<Rightarrow>
             if prog = ''mkdir'' \<and> opt = ''-p'' \<and> list_all (\<lambda>w. \<not> is_option w) paths
             then Some paths else None
         | _ \<Rightarrow> None)
      else None)"

text \<open>
  A directory is named by whether its path is absolute and by the components of the
  path (empty components dropped, so \<^verbatim>\<open>/dst//a\<close> and \<^verbatim>\<open>/dst/a\<close> name the same directory;
  components are taken literally).
\<close>

type_synonym dir = "bool \<times> string list"

definition dir_of :: "string \<Rightarrow> dir" where
  "dir_of p =
     ((case p of [] \<Rightarrow> False | c # _ \<Rightarrow> c = CHR ''/''), fields (\<lambda>c. c = CHR ''/'') [] p)"

fun prefixes :: "'a list \<Rightarrow> 'a list list" where
  "prefixes [] = []"
| "prefixes (x # xs) = [x] # map ((#) x) (prefixes xs)"

definition ancestors :: "dir \<Rightarrow> dir set" where
  "ancestors d = (\<lambda>cs. (fst d, cs)) ` set (prefixes (snd d))"

definition mkdir_p :: "string \<Rightarrow> dir set \<Rightarrow> dir set" where
  "mkdir_p p ds = ds \<union> ancestors (dir_of p)"

definition run_command :: "string \<Rightarrow> dir set \<Rightarrow> dir set option" where
  "run_command cmd ds =
     (case mkdir_operands cmd of
        None \<Rightarrow> None
      | Some paths \<Rightarrow> Some (fold mkdir_p paths ds))"

text \<open>The directories that exist after the events of a call.\<close>

fun dirs_after :: "'w event list \<Rightarrow> dir set \<Rightarrow> dir set option" where
  "dirs_after [] ds = Some ds"
| "dirs_after (Popen cmd # es) ds =
     (case run_command cmd ds of None \<Rightarrow> None | Some ds' \<Rightarrow> dirs_after es ds')"
| "dirs_after (e # es) ds = dirs_after es ds"

section \<open>The operations handed to the encoder\<close>

text \<open>
  The three shapes of argument lists that \<^verbatim>\<open>treewalk.c\<close> passes to
  \<^verbatim>\<open>DCOPY_encode_operation\<close>: a chunk of a file, a child of a directory, and the
  retry of the operation at hand.
\<close>

definition copy_item :: "operation \<Rightarrow> u64 \<Rightarrow> u32 \<Rightarrow> operation" where
  "copy_item op fsize i =
     \<lparr>kind = COPY, chunk = i, operand = operand op,
      source_base_offset = source_base_offset op,
      dest_base_appendix = dest_base_appendix op, file_size = fsize\<rparr>"

definition child_item :: "operation \<Rightarrow> string \<Rightarrow> operation" where
  "child_item op name =
     \<lparr>kind = TREEWALK, chunk = 0, operand = operand op @ ''/'' @ name,
      source_base_offset = source_base_offset op,
      dest_base_appendix = dest_base_appendix op, file_size = file_size op\<rparr>"

definition retry_item :: "operation \<Rightarrow> operation" where
  "retry_item op =
     \<lparr>kind = TREEWALK, chunk = chunk op, operand = operand op,
      source_base_offset = source_base_offset op,
      dest_base_appendix = dest_base_appendix op, file_size = file_size op\<rparr>"

section \<open>Notions of the specification\<close>

text \<open>The chunk-count law of the specification speaks of \<open>ceil (F / C)\<close>.\<close>

definition ceil_div :: "nat \<Rightarrow> nat \<Rightarrow> nat" where
  "ceil_div F C = (F + C - 1) div C"

text \<open>
  The chunker as the specification words it (section 4.4): \<open>num_full = floor (F / C)\<close>,
  one item per index below \<open>num_full\<close>, and one more with index \<open>num_full\<close> if
  \<open>num_full * C < F\<close>. Sizes are unbounded naturals here.
\<close>

definition spec_chunk_indices :: "nat \<Rightarrow> nat \<Rightarrow> nat list" where
  "spec_chunk_indices C F =
     (let num_full = F div C
      in [0..<num_full] @ (if num_full * C < F then [num_full] else []))"

text \<open>
  The indices the code emits, read as naturals (lemma \<open>process_file_unfold\<close> below):
  the same computation, but from the low 32 bits of the size.
\<close>

definition code_chunk_indices :: "nat \<Rightarrow> nat \<Rightarrow> nat list" where
  "code_chunk_indices C F =
     (let num_chunks = (F mod 2 ^ 32) div C
      in [0..<num_chunks] @ (if num_chunks * C < F then [num_chunks] else []))"


text \<open>
  The traversal subtree of an initial item: the items reached from it by callbacks of
  the driver on \<^verbatim>\<open>TREEWALK\<close> items, each callback with whatever answers the system
  gives at that moment. The queue delivers the operation \<open>child\<close> whose encoding was
  enqueued.
\<close>

inductive_set traversal_subtree ::
  "(operation \<Rightarrow> 'w) \<Rightarrow> u32 \<Rightarrow> DCOPY_options_t \<Rightarrow> operation \<Rightarrow> operation set"
  for enc :: "operation \<Rightarrow> 'w" and cs :: u32 and opts :: DCOPY_options_t and root :: operation
  where
    root: "root \<in> traversal_subtree enc cs opts root"
  | derived:
      "parent \<in> traversal_subtree enc cs opts root \<Longrightarrow> kind parent = TREEWALK \<Longrightarrow>
       enc child \<in> set (enqueued (fst (DCOPY_do_treewalk enc cs opts sy parent))) \<Longrightarrow>
       child \<in> traversal_subtree enc cs opts root"

section \<open>The operation codec\<close>

text \<open>
  Modelled from the spec: \<^verbatim>\<open>DCOPY_encode_operation\<close> and its decoder are not in
  \<^verbatim>\<open>treewalk.c\<close>, which only calls the encoder. Sections 4.1 and 6 of the
  specification ask for an explicit, versioned, self-delimiting encoding of kind,
  chunk index, operand, source base offset, nullable destination appendix and file
  size, with length-prefixed fields, and for a \<open>DecodeError\<close> on malformed input. The
  byte layout is left open there; the one below is a version byte, a kind byte,
  numbers in base 128 with a continuation bit, and strings prefixed by their length.
\<close>

datatype decode_error = DecodeError

definition WIRE_VERSION :: char where
  "WIRE_VERSION = CHR 0x01"

fun put_nat :: "nat \<Rightarrow> string" where
  "put_nat n = (if n < 128 then [char_of n] else char_of (128 + n mod 128) # put_nat (n div 128))"

fun get_nat :: "string \<Rightarrow> (nat \<times> string) option" where
  "get_nat [] = None"
| "get_nat (c # cs) =
     (if (of_char c :: nat) < 128 then Some (of_char c, cs)
      else (case get_nat cs of
              None \<Rightarrow> None
            | Some (m, rest) \<Rightarrow> Some (of_char c - 128 + 128 * m, rest)))"

definition put_bytes :: "string \<Rightarrow> string" where
  "put_bytes s = put_nat (length s) @ s"

definition get_bytes :: "string \<Rightarrow> (string \<times> string) option" where
  "get_bytes bs =
     (case get_nat bs of
        None \<Rightarrow> None
      | Some (n, rest) \<Rightarrow> if length rest < n then None else Some (take n rest, drop n rest))"

fun put_kind :: "DCOPY_operation_code_t \<Rightarrow> char" where
  "put_kind TREEWALK = CHR 0x00"
| "put_kind COPY = CHR 0x01"

definition get_kind :: "char \<Rightarrow> DCOPY_operation_code_t option" where
  "get_kind c = (if c = CHR 0x00 then Some TREEWALK else if c = CHR 0x01 then Some COPY else None)"

fun put_opt :: "string option \<Rightarrow> string" where
  "put_opt None = [CHR 0x00]"
| "put_opt (Some s) = CHR 0x01 # put_bytes s"

fun get_opt :: "string \<Rightarrow> (string option \<times> string) option" where
  "get_opt [] = None"
| "get_opt (c # cs) =
     (if c = CHR 0x00 then Some (None, cs)
      else if c = CHR 0x01 then
        (case get_bytes cs of None \<Rightarrow> None | Some (s, rest) \<Rightarrow> Some (Some s, rest))
      else None)"

definition encode :: "operation \<Rightarrow> string" where
  "encode op =
     WIRE_VERSION # put_kind (kind op) # put_nat (unat (chunk op)) @ put_bytes (operand op)
       @ put_nat (source_base_offset op) @ put_opt (dest_base_appendix op)
       @ put_nat (unat (file_size op))"

definition decode :: "string \<Rightarrow> decode_error + operation" where
  "decode bs =
     (case bs of
        v # k # r0 \<Rightarrow>
          if v \<noteq> WIRE_VERSION then Inl DecodeError
          else (case get_kind k of None \<Rightarrow> Inl DecodeError | Some kd \<Rightarrow>
                (case get_nat r0 of None \<Rightarrow> Inl DecodeError | Some (ch, r1) \<Rightarrow>
                 (case get_bytes r1 of None \<Rightarrow> Inl DecodeError | Some (path, r2) \<Rightarrow>
                  (case get_nat r2 of None \<Rightarrow> Inl DecodeError | Some (off, r3) \<Rightarrow>
                   (case get_opt r3 of None \<Rightarrow> Inl DecodeError | Some (app, r4) \<Rightarrow>
                    (case get_nat r4 of None \<Rightarrow> Inl DecodeError | Some (fs, r5) \<Rightarrow>
                       if r5 \<noteq> [] \<or> 2 ^ 32 \<le> ch \<or> 2 ^ 64 \<le> fs then Inl DecodeError
                       else Inr \<lparr>kind = kd, chunk = of_nat ch, operand = path,
                                 source_base_offset = off, dest_base_appendix = app,
                                 file_size = of_nat fs\<rparr>))))))
      | _ \<Rightarrow> Inl DecodeError)"

section \<open>What the chunker enqueues\<close>

lemma enqueued_map_Enqueue: "enqueued (map (\<lambda>k. Enqueue (f k)) xs) = map f xs"
  by (induction xs) simp_all

lemma enqueued_append: "enqueued (xs @ ys) = enqueued xs @ enqueued ys"
  by (induction xs rule: enqueued.induct) simp_all

lemma enqueued_set: "w \<in> set (enqueued es) \<longleftrightarrow> Enqueue w \<in> set es"
  by (induction es rule: enqueued.induct) auto

lemma unat_succ_below:
  fixes i n :: u32
  assumes "i < n"
  shows "unat (i + 1) = unat i + 1"
proof -
  have "unat i < unat n"
    using assms by (simp add: word_less_nat_alt)
  moreover have "unat n < 2 ^ 32"
    using unsigned_less [of n] by simp
  ultimately have "unat i + 1 < 2 ^ 32"
    by simp
  then show ?thesis
    by (simp add: unat_word_ariths)
qed

text \<open>The loop runs through the indices from its start value up to \<open>num_chunks\<close>.\<close>

lemma chunk_loop_unfold:
  "chunk_index \<le> num_chunks \<Longrightarrow>
   chunk_loop enc op fsize num_chunks chunk_index =
     (map (\<lambda>k. Enqueue (enc (copy_item op fsize (of_nat k)))) [unat chunk_index..<unat num_chunks],
      num_chunks)"
proof (induction enc op fsize num_chunks chunk_index rule: chunk_loop.induct)
  case (1 enc op fsize num_chunks chunk_index)
  show ?case
  proof (cases "chunk_index < num_chunks")
    case True
    then have s: "unat (chunk_index + 1) = Suc (unat chunk_index)"
      by (simp add: unat_succ_below)
    have lt: "unat chunk_index < unat num_chunks"
      using True by (simp add: word_less_nat_alt)
    then have le: "chunk_index + 1 \<le> num_chunks"
      using s by (simp add: word_le_nat_alt)
    have "chunk_loop enc op fsize num_chunks (chunk_index + 1) =
       (map (\<lambda>k. Enqueue (enc (copy_item op fsize (of_nat k))))
          [Suc (unat chunk_index)..<unat num_chunks], num_chunks)"
      using "1.IH" [OF True refl le] s by simp
    then show ?thesis
      using True lt
      by (subst chunk_loop.simps) (simp add: upt_conv_Cons copy_item_def)
  next
    case False
    with "1.prems" have "chunk_index = num_chunks"
      by simp
    then show ?thesis
      by (subst chunk_loop.simps) simp
  qed
qed

lemma num_chunks_unat:
  "unat ((ucast (fsize :: u64) :: u32) div cs) = (unat fsize mod 2 ^ 32) div unat cs"
  by (simp add: unat_div unsigned_ucast_eq take_bit_eq_mod)

text \<open>The 32-bit product \<^verbatim>\<open>num_chunks * DCOPY_CHUNK_SIZE\<close> never wraps.\<close>

lemma product_no_wrap:
  fixes cs :: u32 and fsize :: u64
  shows "unat ((ucast fsize :: u32) div cs * cs) = (unat fsize mod 2 ^ 32) div unat cs * unat cs"
proof -
  let ?n = "(ucast fsize :: u32) div cs"
  have "unat ?n * unat cs \<le> unat (ucast fsize :: u32)"
    by (simp add: unat_div)
  also have "\<dots> < 2 ^ 32"
    using unsigned_less [of "ucast fsize :: u32"] by simp
  finally have "unat (?n * cs) = unat ?n * unat cs"
    by (simp add: unat_word_ariths)
  then show ?thesis
    by (simp add: num_chunks_unat)
qed

lemma partial_test:
  fixes cs :: u32 and fsize :: u64
  shows "(ucast ((ucast fsize :: u32) div cs * cs) :: u64) < fsize \<longleftrightarrow>
         (unat fsize mod 2 ^ 32) div unat cs * unat cs < unat fsize"
proof -
  have "unat (ucast ((ucast fsize :: u32) div cs * cs) :: u64) =
        unat ((ucast fsize :: u32) div cs * cs)"
  proof -
    have "unat ((ucast fsize :: u32) div cs * cs) < 2 ^ 32"
      using unsigned_less [of "(ucast fsize :: u32) div cs * cs"] by simp
    then have "unat ((ucast fsize :: u32) div cs * cs) < 2 ^ 64"
      by simp
    then show ?thesis
      by (simp add: unsigned_ucast_eq take_bit_nat_eq_self)
  qed
  then show ?thesis
    by (simp add: word_less_nat_alt product_no_wrap)
qed

lemma process_file_unfold:
  "DCOPY_stat_process_file enc cs op fsize =
     map (\<lambda>k. Enqueue (enc (copy_item op fsize (of_nat k))))
       (code_chunk_indices (unat cs) (unat fsize))"
proof -
  let ?n = "(ucast fsize :: u32) div cs"
  have loop: "chunk_loop enc op fsize ?n 0 =
      (map (\<lambda>k. Enqueue (enc (copy_item op fsize (of_nat k)))) [0..<unat ?n], ?n)"
    using chunk_loop_unfold [of 0 ?n enc op fsize] by simp
  have last: "of_nat ((unat fsize mod 2 ^ 32) div unat cs) = ?n"
  proof -
    have "of_nat (unat ?n) = ?n"
      by simp
    then show ?thesis
      by (simp only: num_chunks_unat)
  qed
  show ?thesis
    unfolding DCOPY_stat_process_file_def Let_def loop code_chunk_indices_def
    using partial_test [of fsize cs] num_chunks_unat [of fsize cs] last
    by (simp add: copy_item_def)
qed

lemma process_file_enqueued:
  "enqueued (DCOPY_stat_process_file enc cs op fsize) =
     map (\<lambda>k. enc (copy_item op fsize (of_nat k))) (code_chunk_indices (unat cs) (unat fsize))"
  by (simp only: process_file_unfold enqueued_map_Enqueue)

lemma process_file_events:
  "e \<in> set (DCOPY_stat_process_file enc cs op fsize) \<Longrightarrow>
   \<exists>i. e = Enqueue (enc (copy_item op fsize i))"
  by (auto simp: process_file_unfold)

section \<open>The chunk-count law\<close>

lemma code_eq_spec_below:
  "F < 2 ^ 32 \<Longrightarrow> code_chunk_indices C F = spec_chunk_indices C F"
  by (simp add: code_chunk_indices_def spec_chunk_indices_def)

lemma length_spec_chunk_indices:
  assumes "0 < C"
  shows "length (spec_chunk_indices C F) = ceil_div F C"
proof -
  define q r where "q = F div C" and "r = F mod C"
  have F: "F = C * q + r" and r: "r < C"
    using assms by (simp_all add: q_def r_def)
  show ?thesis
  proof (cases "r = 0")
    case True
    have "(F + C - 1) div C = q"
      using F r True by (intro div_nat_eqI) simp_all
    moreover have "\<not> q * C < F"
      using F True by (simp add: mult.commute)
    ultimately show ?thesis
      by (simp add: spec_chunk_indices_def ceil_div_def q_def [symmetric])
  next
    case False
    have "(F + C - 1) div C = Suc q"
      using F r False by (intro div_nat_eqI) simp_all
    moreover have "q * C < F"
      using F False by (simp add: mult.commute)
    ultimately show ?thesis
      by (simp add: spec_chunk_indices_def ceil_div_def q_def [symmetric])
  qed
qed

text \<open>
  For a size that fits in 32 bits the code follows the specification's algorithm, and
  the chunk-count law holds.
\<close>

lemma chunk_count_below_4GiB:
  assumes "cs \<noteq> 0" and "unat fsize < 2 ^ 32"
  shows "length (enqueued (DCOPY_stat_process_file enc cs op fsize)) =
         ceil_div (unat fsize) (unat cs)"
proof -
  have "0 < unat cs"
    using assms(1) by (simp add: unat_gt_0)
  then show ?thesis
    using assms(2)
    by (simp only: process_file_enqueued length_map code_eq_spec_below length_spec_chunk_indices)
qed

lemma ceil_div_4GiB:
  assumes "C < 2 ^ 32"
  shows "ceil_div 4294967296 C \<noteq> 1"
proof (cases "C = 0")
  case True
  then show ?thesis
    by (simp add: ceil_div_def)
next
  case False
  then have "2 * C \<le> 4294967296 + C - 1"
    using assms by simp
  then have "2 \<le> (4294967296 + C - 1) div C"
    using False by (simp add: less_eq_div_iff_mult_less_eq)
  then show ?thesis
    by (simp add: ceil_div_def)
qed

lemma code_indices_4GiB: "code_chunk_indices C 4294967296 = [0]"
  by (simp add: code_chunk_indices_def)

text \<open>
  Claim C1: for every regular file the number of \<^verbatim>\<open>COPY\<close> operations enqueued is
  \<open>ceil (file_size / CHUNK_SIZE)\<close>, and 0 for an empty file, also for sizes that do not
  fit in 32 bits.

  For a file of \<open>2 ^ 32\<close> bytes the cast cuts the size to 0 before the division: the
  loop enqueues nothing, the test after the loop compares 0 with the full size and
  enqueues one operation with chunk index 0. Whatever the chunk size, one operation
  is not \<open>ceil (2 ^ 32 / CHUNK_SIZE)\<close>.
\<close>

theorem chunk_count_wrong_at_4GiB:
  "enqueued (DCOPY_stat_process_file enc cs op 4294967296) = [enc (copy_item op 4294967296 0)] \<and>
   length (enqueued (DCOPY_stat_process_file enc cs op 4294967296))
     \<noteq> ceil_div (unat (4294967296 :: u64)) (unat cs)"
proof -
  have "unat cs < 2 ^ 32"
    using unsigned_less [of cs] by simp
  then have "ceil_div 4294967296 (unat cs) \<noteq> 1"
    by (rule ceil_div_4GiB)
  then show ?thesis
    by (simp add: process_file_enqueued code_indices_4GiB)
qed

section \<open>The final chunk\<close>

lemma code_indices_bound:
  assumes "j \<in> set (code_chunk_indices C F)"
  shows "j < 2 ^ 32"
proof -
  have "(F mod 2 ^ 32) div C \<le> F mod 2 ^ 32"
    by simp
  also have "\<dots> < 2 ^ 32"
    by simp
  finally show ?thesis
    using assms by (auto simp: code_chunk_indices_def Let_def split: if_splits)
qed

lemma no_remainder_index_absent:
  assumes "0 < C" and "C dvd F"
  shows "F div C \<notin> set (code_chunk_indices C F)"
proof -
  have le: "(F mod 2 ^ 32) div C \<le> F div C"
    by (simp add: div_le_mono)
  have full: "F div C * C = F"
    using assms(2) by simp
  show ?thesis
    using le full by (auto simp: code_chunk_indices_def Let_def split: if_splits)
qed

text \<open>
  The no-remainder clause holds at every size: when the size is a multiple of the
  chunk size, no enqueued operation carries the index \<open>file_size / CHUNK_SIZE\<close>.
\<close>

lemma no_remainder_chunk_absent:
  assumes "cs \<noteq> 0" and "unat cs dvd unat fsize"
    and "c \<in> set (enqueued (DCOPY_stat_process_file (\<lambda>x. x) cs op fsize))"
  shows "unat (chunk c) \<noteq> unat fsize div unat cs"
proof -
  from assms(3) obtain j where j: "j \<in> set (code_chunk_indices (unat cs) (unat fsize))"
    and c: "c = copy_item op fsize (of_nat j)"
    by (auto simp: process_file_enqueued)
  have "j < 2 ^ 32"
    using j by (rule code_indices_bound)
  then have "unat (chunk c) = j"
    by (simp add: c copy_item_def unat_of_nat)
  moreover have "0 < unat cs"
    using assms(1) by (simp add: unat_gt_0)
  ultimately show ?thesis
    using no_remainder_index_absent [OF _ assms(2)] j by auto
qed

text \<open>
  Claim C7: when the size is an exact positive multiple of the chunk size no
  \<^verbatim>\<open>COPY\<close> operation carries the index \<open>file_size / CHUNK_SIZE\<close>; the final operation
  with index \<open>num_full = floor (file_size / CHUNK_SIZE)\<close> is enqueued if and only if
  \<open>num_full * CHUNK_SIZE < file_size\<close>.

  For a file of \<open>2 ^ 32 + 1\<close> bytes and a chunk size that does not divide this size,
  \<open>num_full\<close> is not 0 and \<open>num_full * CHUNK_SIZE < file_size\<close>, so the operation with
  index \<open>num_full\<close> is due; the code enqueues a single operation, with chunk index 0.
\<close>

theorem final_chunk_wrong_above_4GiB:
  assumes "cs \<noteq> 0" and "\<not> unat cs dvd 4294967297"
  shows "enqueued (DCOPY_stat_process_file enc cs op 4294967297) =
           [enc (copy_item op 4294967297 0)]
     \<and> (4294967297 div unat cs) * unat cs < 4294967297
     \<and> 4294967297 div unat cs \<noteq> 0"
proof -
  have pos: "0 < unat cs"
    using assms(1) by (simp add: unat_gt_0)
  have "unat cs \<noteq> 1"
    using assms(2) by auto
  with pos have big: "1 < unat cs"
    by simp
  have "unat cs < 2 ^ 32"
    using unsigned_less [of cs] by simp
  then have nz: "4294967297 div unat cs \<noteq> 0"
    using pos by (simp add: div_eq_0_iff)
  have "4294967297 mod unat cs \<noteq> 0"
    using assms(2) by (simp add: dvd_eq_mod_eq_0)
  then have lt: "(4294967297 div unat cs) * unat cs < 4294967297"
    using div_mult_mod_eq [of 4294967297 "unat cs"] by linarith
  have "code_chunk_indices (unat cs) 4294967297 = [0]"
    using big by (simp add: code_chunk_indices_def)
  then show ?thesis
    using nz lt by (simp add: process_file_enqueued)
qed

theorem final_chunk_wrong_above_4GiB_witness:
  "(4194304 :: u32) \<noteq> 0 \<and> \<not> unat (4194304 :: u32) dvd 4294967297 \<and>
   enqueued (DCOPY_stat_process_file (\<lambda>x. x) 4194304
      \<lparr>kind = TREEWALK, chunk = 0, operand = ''/src/big'', source_base_offset = 4,
       dest_base_appendix = None, file_size = 0\<rparr> 4294967297)
     = [\<lparr>kind = COPY, chunk = 0, operand = ''/src/big'', source_base_offset = 4,
         dest_base_appendix = None, file_size = 4294967297\<rparr>] \<and>
   (4294967297 div unat (4194304 :: u32)) * unat (4194304 :: u32) < 4294967297 \<and>
   4294967297 div unat (4194304 :: u32) = 1024"
proof -
  have a: "(4194304 :: u32) \<noteq> 0"
    by simp
  have b: "\<not> unat (4194304 :: u32) dvd 4294967297"
    by simp
  show ?thesis
    using a b final_chunk_wrong_above_4GiB [OF a b, of "\<lambda>x. x"
      "\<lparr>kind = TREEWALK, chunk = 0, operand = ''/src/big'', source_base_offset = 4,
        dest_base_appendix = None, file_size = 0\<rparr>"]
    by (simp add: copy_item_def)
qed

section \<open>Classification\<close>

lemma file_types_exclusive:
  "\<not> (S_ISDIR m \<and> S_ISREG m)" "\<not> (S_ISDIR m \<and> S_ISLNK m)" "\<not> (S_ISREG m \<and> S_ISLNK m)"
  by (auto simp: S_ISDIR_def S_ISREG_def S_ISLNK_def S_IFDIR_def S_IFREG_def S_IFLNK_def)

text \<open>
  Claim C5: when the link-aware lookup reports a symbolic link, \<^verbatim>\<open>DCOPY_is_directory\<close>
  and \<^verbatim>\<open>DCOPY_is_regular_file\<close> are both false, and the driver takes the
  unsupported-type branch: it exits with failure in reliable mode and otherwise
  re-enqueues the operation; it calls neither the expander nor the chunker (no
  \<^verbatim>\<open>popen\<close>, no \<^verbatim>\<open>opendir\<close>, no \<^verbatim>\<open>COPY\<close> item). \<^verbatim>\<open>lstat\<close> reports the link itself, so
  what the link points at plays no part.
\<close>

theorem symlink_is_unsupported:
  assumes "lstat sy (operand op) = Some statbuf" and "S_ISLNK (st_mode statbuf)"
  shows "\<not> DCOPY_is_directory sy (operand op) \<and> \<not> DCOPY_is_regular_file sy (operand op) \<and>
    DCOPY_do_treewalk enc cs opts sy op =
      (if reliable_filesystem opts then ([Lstat (operand op)], Exited EXIT_FAILURE)
       else ([Lstat (operand op),
              Enqueue (enc \<lparr>kind = TREEWALK, chunk = chunk op, operand = operand op,
                             source_base_offset = source_base_offset op,
                             dest_base_appendix = dest_base_appendix op,
                             file_size = file_size op\<rparr>)], Returned))"
proof -
  have "\<not> S_ISDIR (st_mode statbuf)" and "\<not> S_ISREG (st_mode statbuf)"
    using assms(2) file_types_exclusive(2,3) [of "st_mode statbuf"] by blast+
  then show ?thesis
    using assms(1)
    by (simp add: DCOPY_is_directory_def DCOPY_is_regular_file_def DCOPY_do_treewalk_def)
qed

theorem symlink_is_unsupported_witness:
  "lstat \<lparr>lstat = (\<lambda>p. Some \<lparr>st_mode = 0xA1FF, st_size = 4\<rparr>), popen = (\<lambda>c. True), opendir = (\<lambda>p. Some [''.'', ''..'', ''x''])\<rparr>
     ''/src/link'' = Some \<lparr>st_mode = 0xA1FF, st_size = 4\<rparr> \<and>
   S_ISLNK 0xA1FF \<and>
   \<not> DCOPY_is_directory
       \<lparr>lstat = (\<lambda>p. Some \<lparr>st_mode = 0xA1FF, st_size = 4\<rparr>), popen = (\<lambda>c. True), opendir = (\<lambda>p. Some [''.'', ''..'', ''x''])\<rparr>
       ''/src/link'' \<and>
   \<not> DCOPY_is_regular_file
       \<lparr>lstat = (\<lambda>p. Some \<lparr>st_mode = 0xA1FF, st_size = 4\<rparr>), popen = (\<lambda>c. True), opendir = (\<lambda>p. Some [''.'', ''..'', ''x''])\<rparr>
       ''/src/link'' \<and>
   DCOPY_do_treewalk (\<lambda>x. x) 4194304 \<lparr>dest_path = ''/dst'', reliable_filesystem = False\<rparr>
       \<lparr>lstat = (\<lambda>p. Some \<lparr>st_mode = 0xA1FF, st_size = 4\<rparr>), popen = (\<lambda>c. True), opendir = (\<lambda>p. Some [''.'', ''..'', ''x''])\<rparr>
       \<lparr>kind = TREEWALK, chunk = 0, operand = ''/src/link'', source_base_offset = 4,
        dest_base_appendix = None, file_size = 0\<rparr>
     = ([Lstat ''/src/link'',
         Enqueue \<lparr>kind = TREEWALK, chunk = 0, operand = ''/src/link'', source_base_offset = 4,
                  dest_base_appendix = None, file_size = 0\<rparr>], Returned)"
proof -
  have link: "S_ISLNK (0xA1FF :: u32)"
    by (simp add: S_ISLNK_def S_IFMT_def S_IFLNK_def)
  show ?thesis
    using link symlink_is_unsupported [of
      "\<lparr>lstat = (\<lambda>p. Some \<lparr>st_mode = 0xA1FF, st_size = 4\<rparr>), popen = (\<lambda>c. True), opendir = (\<lambda>p. Some [''.'', ''..'', ''x''])\<rparr>"
      "\<lparr>kind = TREEWALK, chunk = 0, operand = ''/src/link'', source_base_offset = 4,
        dest_base_appendix = None, file_size = 0\<rparr>"
      "\<lparr>st_mode = 0xA1FF, st_size = 4\<rparr>" "\<lambda>x. x" 4194304
      "\<lparr>dest_path = ''/dst'', reliable_filesystem = False\<rparr>"]
    by simp
qed


section \<open>The directory listing\<close>









lemma readdir_loop_unfold:
  "readdir_loop enc op ents =
     map (\<lambda>name. Enqueue (enc (child_item op name)))
       (filter (\<lambda>name. strncmp name ''.'' 2 \<noteq> 0 \<and> strncmp name ''..'' 3 \<noteq> 0) ents)"
  by (induction ents) (simp_all add: child_item_def del: strncmp.simps)

lemma readdir_loop_enqueued:
  "enqueued (readdir_loop enc op ents) =
     map (\<lambda>name. enc (child_item op name))
       (filter (\<lambda>name. strncmp name ''.'' 2 \<noteq> 0 \<and> strncmp name ''..'' 3 \<noteq> 0) ents)"
  by (simp only: readdir_loop_unfold enqueued_map_Enqueue)

lemma readdir_loop_events:
  "e \<in> set (readdir_loop enc op ents) \<Longrightarrow> \<exists>name. e = Enqueue (enc (child_item op name))"
  by (auto simp: readdir_loop_unfold)


lemma process_dir_listing:
  assumes "popen sy (cmd_buf opts op)" and "opendir sy (operand op) = Some ents"
  shows "snd (DCOPY_stat_process_dir enc opts sy op) = Returned"
    and "enqueued (fst (DCOPY_stat_process_dir enc opts sy op)) =
           map (\<lambda>name. enc (child_item op name))
             (filter (\<lambda>name. strncmp name ''.'' 2 \<noteq> 0 \<and> strncmp name ''..'' 3 \<noteq> 0) ents)"
  using assms
  by (simp_all add: DCOPY_stat_process_dir_def enqueued_append readdir_loop_enqueued
      del: strncmp.simps)





section \<open>The destination directory\<close>

lemma process_dir_popen_failure:
  assumes "\<not> popen sy (cmd_buf opts op)"
  shows "DCOPY_stat_process_dir enc opts sy op = ([PopenFailed (cmd_buf opts op)], Crashed)"
  using assms by (simp add: DCOPY_stat_process_dir_def)

lemma dirs_after_append:
  "dirs_after (es @ fs) ds = (case dirs_after es ds of None \<Rightarrow> None | Some ds' \<Rightarrow> dirs_after fs ds')"
  by (induction es ds rule: dirs_after.induct) (simp_all split: option.split)

lemma dirs_after_enqueues: "dirs_after (map (\<lambda>x. Enqueue (f x)) xs) ds = Some ds"
  by (induction xs) simp_all

text \<open>
  The only command of the expander is the one in \<open>cmd_buf\<close>, and it has run before
  \<^verbatim>\<open>opendir\<close> is called.
\<close>

lemma process_dir_command:
  assumes "popen sy (cmd_buf opts op)"
  shows "\<exists>rest. fst (DCOPY_stat_process_dir enc opts sy op) =
            Popen (cmd_buf opts op) # Opendir (operand op) # rest"
    and "dirs_after (fst (DCOPY_stat_process_dir enc opts sy op)) ds =
           run_command (cmd_buf opts op) ds"
  using assms
  by (simp_all add: DCOPY_stat_process_dir_def readdir_loop_unfold dirs_after_append
      dirs_after_enqueues split: option.split del: strncmp.simps)

lemma fields_no_sep:
  assumes "\<forall>c \<in> set w. \<not> sep c"
  shows "fields sep cur w = (if cur @ w = [] then [] else [cur @ w])"
  using assms by (induction w arbitrary: cur) simp_all

lemma plain_not_blank: "sh_plain c \<Longrightarrow> \<not> sh_blank c"
  by (auto simp: sh_plain_def sh_blank_def Let_def)

lemma mkdir_operands_plain:
  assumes "list_all sh_plain d" and "d \<noteq> []" and "\<not> is_option d"
  shows "mkdir_operands (''mkdir -p '' @ d) = Some [d]"
proof -
  have no_blank: "\<forall>c \<in> set d. \<not> sh_blank c"
    using assms(1) by (auto simp: list_all_iff dest: plain_not_blank)
  have "sh_fields (''mkdir -p '' @ d) = [''mkdir'', ''-p'', d]"
    using assms(2) by (simp add: sh_fields_def sh_blank_def fields_no_sep [OF no_blank])
  moreover have "list_all (\<lambda>c. sh_plain c \<or> sh_blank c) (''mkdir -p '' @ d)"
    using assms(1) by (auto simp: list_all_iff sh_plain_def sh_blank_def)
  ultimately show ?thesis
    using assms(3) by (simp add: mkdir_operands_def)
qed

text \<open>
  For a destination path of plain characters the claim of the specification holds: the
  command creates the destination directory with all its ancestors, whatever exists
  already, before the source directory is opened.
\<close>

lemma plain_destination_created:
  assumes "popen sy (cmd_buf opts op)" and "list_all sh_plain (dest_dir opts op)"
    and "\<not> is_option (dest_dir opts op)"
  shows "dirs_after (fst (DCOPY_stat_process_dir enc opts sy op)) ds =
           Some (ds \<union> ancestors (dir_of (dest_dir opts op)))"
proof -
  have "dest_dir opts op \<noteq> []"
    by (simp add: dest_dir_def split: option.split)
  then have "mkdir_operands (cmd_buf opts op) = Some [dest_dir opts op]"
    unfolding cmd_buf_def using assms(2,3) by (intro mkdir_operands_plain)
  then show ?thesis
    by (simp add: process_dir_command(2) [OF assms(1)] run_command_def mkdir_p_def)
qed

text \<open>
  Claim C6: for every \<^verbatim>\<open>TREEWALK\<close> operation naming a directory the expander computes
  the destination directory as destination root, optional \<^verbatim>\<open>dest_base_appendix\<close>, and
  the operand without its first \<^verbatim>\<open>source_base_offset\<close> bytes, and creates that directory
  with all missing ancestors before it opens the source directory.

  The path is put into the shell command unquoted. For the operand \<^verbatim>\<open>/src/a b\<close> under
  the destination root \<^verbatim>\<open>/dst\<close> the command is \<^verbatim>\<open>mkdir -p /dst//a b\<close>: the shell hands
  \<^verbatim>\<open>mkdir\<close> the two operands \<^verbatim>\<open>/dst//a\<close> and \<^verbatim>\<open>b\<close>, and the destination directory
  \<^verbatim>\<open>/dst/a b\<close> does not exist afterwards unless it did before.
\<close>

theorem destination_with_blank_not_created:
  assumes "popen sy ''mkdir -p /dst//a b''"
    and "(True, [''dst'', ''a b'']) \<notin> ds"
  shows "dest_dir \<lparr>dest_path = ''/dst'', reliable_filesystem = r\<rparr>
           \<lparr>kind = TREEWALK, chunk = 0, operand = ''/src/a b'', source_base_offset = 4,
            dest_base_appendix = None, file_size = 0\<rparr> = ''/dst//a b'' \<and>
    dir_of ''/dst//a b'' = (True, [''dst'', ''a b'']) \<and>
    mkdir_operands ''mkdir -p /dst//a b'' = Some [''/dst//a'', ''b''] \<and>
    dirs_after (fst (DCOPY_stat_process_dir enc \<lparr>dest_path = ''/dst'', reliable_filesystem = r\<rparr> sy
           \<lparr>kind = TREEWALK, chunk = 0, operand = ''/src/a b'', source_base_offset = 4,
            dest_base_appendix = None, file_size = 0\<rparr>)) ds
      = Some (ds \<union> {(True, [''dst'']), (True, [''dst'', ''a'']), (False, [''b''])}) \<and>
    dir_of ''/dst//a b'' \<notin> ds \<union> {(True, [''dst'']), (True, [''dst'', ''a'']), (False, [''b''])}"
proof -
  let ?opts = "\<lparr>dest_path = ''/dst'', reliable_filesystem = r\<rparr>"
  let ?op = "\<lparr>kind = TREEWALK, chunk = 0, operand = ''/src/a b'', source_base_offset = 4,
            dest_base_appendix = None, file_size = 0\<rparr>"
  have dest: "dest_dir ?opts ?op = ''/dst//a b''"
    by (simp add: dest_dir_def)
  then have cmd: "cmd_buf ?opts ?op = ''mkdir -p /dst//a b''"
    by (simp add: cmd_buf_def)
  have dir: "dir_of ''/dst//a b'' = (True, [''dst'', ''a b''])"
    by (simp add: dir_of_def)
  have operands: "mkdir_operands ''mkdir -p /dst//a b'' = Some [''/dst//a'', ''b'']"
    by (simp add: mkdir_operands_def sh_fields_def sh_blank_def sh_plain_def is_option_def)
  have made: "run_command ''mkdir -p /dst//a b'' ds =
      Some (ds \<union> {(True, [''dst'']), (True, [''dst'', ''a'']), (False, [''b''])})"
    by (auto simp: run_command_def operands mkdir_p_def ancestors_def dir_of_def)
  have "popen sy (cmd_buf ?opts ?op)"
    using assms(1) by (simp only: cmd)
  then have "dirs_after (fst (DCOPY_stat_process_dir enc ?opts sy ?op)) ds =
      run_command ''mkdir -p /dst//a b'' ds"
    by (simp only: process_dir_command(2) cmd)
  then show ?thesis
    using dest dir operands made assms(2) by simp
qed

theorem destination_with_blank_not_created_witness:
  "popen \<lparr>lstat = (\<lambda>p. None), popen = (\<lambda>c. True), opendir = (\<lambda>p. Some [''.'', ''..''])\<rparr>
      ''mkdir -p /dst//a b'' \<and>
   dirs_after (fst (DCOPY_stat_process_dir (\<lambda>x. x) \<lparr>dest_path = ''/dst'', reliable_filesystem = False\<rparr>
       \<lparr>lstat = (\<lambda>p. None), popen = (\<lambda>c. True), opendir = (\<lambda>p. Some [''.'', ''..''])\<rparr>
       \<lparr>kind = TREEWALK, chunk = 0, operand = ''/src/a b'', source_base_offset = 4,
        dest_base_appendix = None, file_size = 0\<rparr>)) {}
     = Some {(True, [''dst'']), (True, [''dst'', ''a'']), (False, [''b''])} \<and>
   dir_of ''/dst//a b'' = (True, [''dst'', ''a b'']) \<and>
   (True, [''dst'', ''a b'']) \<notin> {(True, [''dst'']), (True, [''dst'', ''a'']), (False, [''b''])}"
  using destination_with_blank_not_created [where
      sy = "\<lparr>lstat = (\<lambda>p. None), popen = (\<lambda>c. True), opendir = (\<lambda>p. Some [''.'', ''..''])\<rparr>"
      and ds = "{}" and r = False and enc = "\<lambda>x. x"]
  by simp

section \<open>Retry or fatal\<close>

lemma process_dir_open_failure:
  assumes "popen sy (cmd_buf opts op)" and "opendir sy (operand op) = None"
  shows "snd (DCOPY_stat_process_dir enc opts sy op) =
           (if reliable_filesystem opts then Exited EXIT_FAILURE else Returned)"
    and "enqueued (fst (DCOPY_stat_process_dir enc opts sy op)) =
           (if reliable_filesystem opts then [] else [enc (retry_item op)])"
  using assms by (simp_all add: DCOPY_stat_process_dir_def retry_item_def)





text \<open>
  How a callback ends: it returns, or exits with \<^verbatim>\<open>EXIT_FAILURE\<close> in reliable mode, or
  is killed in \<^verbatim>\<open>pclose\<close>; the latter exactly when the object is a directory and
  \<^verbatim>\<open>popen\<close> gave no stream.
\<close>

lemma treewalk_ends:
  "snd (DCOPY_do_treewalk enc cs opts sy op) = Returned \<or>
   (reliable_filesystem opts \<and> snd (DCOPY_do_treewalk enc cs opts sy op) = Exited EXIT_FAILURE) \<or>
   snd (DCOPY_do_treewalk enc cs opts sy op) = Crashed"
  by (simp add: DCOPY_do_treewalk_def DCOPY_stat_process_dir_def Let_def
      split: option.split)

lemma treewalk_crash_iff:
  "snd (DCOPY_do_treewalk enc cs opts sy op) = Crashed \<longleftrightarrow>
   (\<exists>statbuf. lstat sy (operand op) = Some statbuf \<and> S_ISDIR (st_mode statbuf) \<and>
      \<not> popen sy (cmd_buf opts op))"
  using file_types_exclusive(2)
  by (auto simp: DCOPY_do_treewalk_def DCOPY_stat_process_dir_def Let_def
      split: option.split)

lemma unreliable_returns_unless_popen_fails:
  assumes "\<not> reliable_filesystem opts"
    and "\<not> (\<exists>statbuf. lstat sy (operand op) = Some statbuf \<and> S_ISDIR (st_mode statbuf) \<and>
      \<not> popen sy (cmd_buf opts op))"
  shows "snd (DCOPY_do_treewalk enc cs opts sy op) = Returned"
  using assms treewalk_ends [of enc cs opts sy op] treewalk_crash_iff [of enc cs opts sy op]
  by blast

text \<open>
  Claim C10: when \<^verbatim>\<open>reliable_filesystem\<close> is false the callback never terminates the
  process: every error path re-enqueues a retry and returns.

  The result of \<^verbatim>\<open>popen\<close> is not checked, unlike that of \<^verbatim>\<open>opendir\<close>. When the object is
  a directory and \<^verbatim>\<open>popen\<close> returns \<^verbatim>\<open>NULL\<close>, the callback dies in \<^verbatim>\<open>pclose\<close> whatever
  \<^verbatim>\<open>reliable_filesystem\<close> says, and nothing is enqueued.
\<close>

theorem popen_failure_kills_callback:
  assumes "lstat sy (operand op) = Some statbuf" and "S_ISDIR (st_mode statbuf)"
    and "\<not> popen sy (cmd_buf opts op)"
  shows "DCOPY_do_treewalk enc cs opts sy op =
           ([Lstat (operand op), PopenFailed (cmd_buf opts op)], Crashed) \<and>
         enqueued (fst (DCOPY_do_treewalk enc cs opts sy op)) = []"
proof -
  have "\<not> S_ISLNK (st_mode statbuf)"
    using assms(2) file_types_exclusive(2) by blast
  then show ?thesis
    using assms by (simp add: DCOPY_do_treewalk_def process_dir_popen_failure)
qed

theorem popen_failure_kills_callback_witness:
  "\<not> reliable_filesystem \<lparr>dest_path = ''/dst'', reliable_filesystem = False\<rparr> \<and>
   S_ISDIR 0x41ED \<and>
   cmd_buf \<lparr>dest_path = ''/dst'', reliable_filesystem = False\<rparr>
       \<lparr>kind = TREEWALK, chunk = 0, operand = ''/src/d'', source_base_offset = 4,
        dest_base_appendix = None, file_size = 0\<rparr> = ''mkdir -p /dst//d'' \<and>
   DCOPY_do_treewalk (\<lambda>x. x) 4194304 \<lparr>dest_path = ''/dst'', reliable_filesystem = False\<rparr>
       \<lparr>lstat = (\<lambda>p. Some \<lparr>st_mode = 0x41ED, st_size = 4096\<rparr>), popen = (\<lambda>c. False),
        opendir = (\<lambda>p. Some [''.'', ''..''])\<rparr>
       \<lparr>kind = TREEWALK, chunk = 0, operand = ''/src/d'', source_base_offset = 4,
        dest_base_appendix = None, file_size = 0\<rparr>
     = ([Lstat ''/src/d'', PopenFailed ''mkdir -p /dst//d''], Crashed)"
proof -
  have dir: "S_ISDIR (0x41ED :: u32)"
    by (simp add: S_ISDIR_def S_IFMT_def S_IFDIR_def)
  have cmd: "cmd_buf \<lparr>dest_path = ''/dst'', reliable_filesystem = False\<rparr>
       \<lparr>kind = TREEWALK, chunk = 0, operand = ''/src/d'', source_base_offset = 4,
        dest_base_appendix = None, file_size = 0\<rparr> = ''mkdir -p /dst//d''"
    by (simp add: cmd_buf_def dest_dir_def)
  show ?thesis
    using dir cmd popen_failure_kills_callback [where
      sy = "\<lparr>lstat = (\<lambda>p. Some \<lparr>st_mode = 0x41ED, st_size = 4096\<rparr>), popen = (\<lambda>c. False),
        opendir = (\<lambda>p. Some [''.'', ''..''])\<rparr>"
      and op = "\<lparr>kind = TREEWALK, chunk = 0, operand = ''/src/d'', source_base_offset = 4,
        dest_base_appendix = None, file_size = 0\<rparr>"
      and statbuf = "\<lparr>st_mode = 0x41ED, st_size = 4096\<rparr>"
      and opts = "\<lparr>dest_path = ''/dst'', reliable_filesystem = False\<rparr>"
      and enc = "\<lambda>x. x" and cs = 4194304]
    by simp
qed

section \<open>Dispatch\<close>

lemma process_dir_items:
  assumes "c \<in> set (enqueued (fst (DCOPY_stat_process_dir (\<lambda>x. x) opts sy op)))"
  shows "kind c = TREEWALK \<and> source_base_offset c = source_base_offset op \<and>
         dest_base_appendix c = dest_base_appendix op \<and> file_size c = file_size op"
proof (cases "popen sy (cmd_buf opts op)")
  case False
  with assms show ?thesis
    by (simp add: process_dir_popen_failure)
next
  case stream: True
  show ?thesis
  proof (cases "opendir sy (operand op)")
    case None
    with assms stream have "c = retry_item op"
      by (simp add: process_dir_open_failure(2) split: if_splits)
    then show ?thesis
      by (simp add: retry_item_def)
  next
    case (Some ents)
    with assms stream obtain name where "c = child_item op name"
      by (auto simp: process_dir_listing(2))
    then show ?thesis
      by (simp add: child_item_def)
  qed
qed

text \<open>
  Claim C9: \<^verbatim>\<open>DCOPY_is_directory\<close> and \<^verbatim>\<open>DCOPY_is_regular_file\<close> are never both true
  of a path, and one callback of the driver never runs both the expander and the
  chunker: its events never hold both an \<^verbatim>\<open>opendir\<close> and an enqueued \<^verbatim>\<open>COPY\<close> item.
\<close>

theorem branches_exclusive:
  "\<not> (DCOPY_is_directory sy path \<and> DCOPY_is_regular_file sy path) \<and>
   \<not> ((\<exists>d. Opendir d \<in> set (fst (DCOPY_do_treewalk (\<lambda>x. x) cs opts sy op))) \<and>
      (\<exists>c. c \<in> set (enqueued (fst (DCOPY_do_treewalk (\<lambda>x. x) cs opts sy op))) \<and> kind c = COPY))"
proof -
  have classify: "\<not> (DCOPY_is_directory sy path \<and> DCOPY_is_regular_file sy path)"
    using file_types_exclusive(1)
    by (auto simp: DCOPY_is_directory_def DCOPY_is_regular_file_def split: option.splits)
  have dispatch: False
    if o: "Opendir d \<in> set (fst (DCOPY_do_treewalk (\<lambda>x. x) cs opts sy op))"
      and c: "c \<in> set (enqueued (fst (DCOPY_do_treewalk (\<lambda>x. x) cs opts sy op)))"
      and k: "kind c = COPY" for d c
  proof (cases "lstat sy (operand op)")
    case None
    with o show False
      by (simp add: DCOPY_do_treewalk_def split: if_splits)
  next
    case (Some statbuf)
    show False
    proof (cases "S_ISDIR (st_mode statbuf) \<and> \<not> S_ISLNK (st_mode statbuf)")
      case True
      with Some c have "c \<in> set (enqueued (fst (DCOPY_stat_process_dir (\<lambda>x. x) opts sy op)))"
        by (simp add: DCOPY_do_treewalk_def split_beta)
      then have "kind c = TREEWALK"
        using process_dir_items by blast
      with k show False
        by simp
    next
      case False
      with Some o have "Opendir d \<in> set (DCOPY_stat_process_file (\<lambda>x. x) cs op (st_size statbuf))"
        by (auto simp: DCOPY_do_treewalk_def split: if_splits)
      then show False
        by (auto dest: process_file_events)
    qed
  qed
  from classify dispatch show ?thesis
    by blast
qed

theorem branches_exclusive_witness:
  "DCOPY_is_directory \<lparr>lstat = (\<lambda>p. Some \<lparr>st_mode = 0x41ED, st_size = 4096\<rparr>), popen = (\<lambda>c. True), opendir = (\<lambda>p. Some [''a''])\<rparr> ''/src'' \<and>
   \<not> DCOPY_is_regular_file \<lparr>lstat = (\<lambda>p. Some \<lparr>st_mode = 0x41ED, st_size = 4096\<rparr>), popen = (\<lambda>c. True), opendir = (\<lambda>p. Some [''a''])\<rparr> ''/src'' \<and>
   \<not> ((\<exists>d. Opendir d \<in> set (fst (DCOPY_do_treewalk (\<lambda>x. x) 4194304
           \<lparr>dest_path = ''/dst'', reliable_filesystem = True\<rparr>
           \<lparr>lstat = (\<lambda>p. Some \<lparr>st_mode = 0x41ED, st_size = 4096\<rparr>), popen = (\<lambda>c. True), opendir = (\<lambda>p. Some [''a''])\<rparr>
           \<lparr>kind = TREEWALK, chunk = 0, operand = ''/src'', source_base_offset = 4,
            dest_base_appendix = None, file_size = 0\<rparr>))) \<and>
      (\<exists>c. c \<in> set (enqueued (fst (DCOPY_do_treewalk (\<lambda>x. x) 4194304
           \<lparr>dest_path = ''/dst'', reliable_filesystem = True\<rparr>
           \<lparr>lstat = (\<lambda>p. Some \<lparr>st_mode = 0x41ED, st_size = 4096\<rparr>), popen = (\<lambda>c. True), opendir = (\<lambda>p. Some [''a''])\<rparr>
           \<lparr>kind = TREEWALK, chunk = 0, operand = ''/src'', source_base_offset = 4,
            dest_base_appendix = None, file_size = 0\<rparr>))) \<and> kind c = COPY))"
proof -
  have dir: "DCOPY_is_directory
      \<lparr>lstat = (\<lambda>p. Some \<lparr>st_mode = 0x41ED, st_size = 4096\<rparr>), popen = (\<lambda>c. True), opendir = (\<lambda>p. Some [''a''])\<rparr> ''/src''"
    by (simp add: DCOPY_is_directory_def S_ISDIR_def S_ISLNK_def S_IFMT_def S_IFDIR_def S_IFLNK_def)
  show ?thesis
    using dir branches_exclusive [of
      "\<lparr>lstat = (\<lambda>p. Some \<lparr>st_mode = 0x41ED, st_size = 4096\<rparr>), popen = (\<lambda>c. True), opendir = (\<lambda>p. Some [''a''])\<rparr>"
      "''/src''" 4194304 "\<lparr>dest_path = ''/dst'', reliable_filesystem = True\<rparr>"
      "\<lparr>kind = TREEWALK, chunk = 0, operand = ''/src'', source_base_offset = 4,
        dest_base_appendix = None, file_size = 0\<rparr>"]
    by blast
qed

section \<open>Inheritance of the base offset\<close>

lemma process_dir_naturality:
  "enqueued (fst (DCOPY_stat_process_dir enc opts sy op)) =
     map enc (enqueued (fst (DCOPY_stat_process_dir (\<lambda>x. x) opts sy op)))"
  by (simp add: DCOPY_stat_process_dir_def Let_def enqueued_append readdir_loop_enqueued
      split: option.split del: strncmp.simps)

lemma treewalk_naturality:
  "enqueued (fst (DCOPY_do_treewalk enc cs opts sy op)) =
     map enc (enqueued (fst (DCOPY_do_treewalk (\<lambda>x. x) cs opts sy op)))"
proof (cases "lstat sy (operand op)")
  case None
  then show ?thesis
    by (simp add: DCOPY_do_treewalk_def)
next
  case (Some statbuf)
  then show ?thesis
    using process_dir_naturality [of enc opts sy op]
    by (simp add: DCOPY_do_treewalk_def split_beta process_file_enqueued)
qed

lemma treewalk_items:
  assumes "c \<in> set (enqueued (fst (DCOPY_do_treewalk (\<lambda>x. x) cs opts sy op)))"
  shows "source_base_offset c = source_base_offset op \<and>
         dest_base_appendix c = dest_base_appendix op \<and>
         (kind c = COPY \<longrightarrow>
            (\<exists>statbuf. lstat sy (operand op) = Some statbuf \<and> file_size c = st_size statbuf)) \<and>
         (kind c = TREEWALK \<longrightarrow> file_size c = file_size op)"
proof (cases "lstat sy (operand op)")
  case None
  with assms show ?thesis
    by (auto simp: DCOPY_do_treewalk_def split: if_splits)
next
  case (Some statbuf)
  show ?thesis
  proof (cases "S_ISDIR (st_mode statbuf) \<and> \<not> S_ISLNK (st_mode statbuf)")
    case True
    with Some assms have "c \<in> set (enqueued (fst (DCOPY_stat_process_dir (\<lambda>x. x) opts sy op)))"
      by (simp add: DCOPY_do_treewalk_def split_beta)
    then show ?thesis
      using process_dir_items by fastforce
  next
    case False
    show ?thesis
    proof (cases "S_ISREG (st_mode statbuf) \<and> \<not> S_ISLNK (st_mode statbuf)")
      case True
      with Some \<open>\<not> (S_ISDIR (st_mode statbuf) \<and> \<not> S_ISLNK (st_mode statbuf))\<close> assms
      have "c \<in> set (enqueued (DCOPY_stat_process_file (\<lambda>x. x) cs op (st_size statbuf)))"
        by (auto simp: DCOPY_do_treewalk_def)
      then obtain i where "c = copy_item op (st_size statbuf) i"
        by (auto simp: process_file_enqueued)
      with Some show ?thesis
        by (simp add: copy_item_def)
    next
      case no_file: False
      with Some False assms show ?thesis
        by (auto simp: DCOPY_do_treewalk_def split: if_splits)
    qed
  qed
qed

lemma subtree_offsets:
  assumes "inj enc" and "c \<in> traversal_subtree enc cs opts root"
  shows "source_base_offset c = source_base_offset root \<and>
         dest_base_appendix c = dest_base_appendix root"
  using assms(2)
proof (induction rule: traversal_subtree.induct)
  case root
  show ?case
    by simp
next
  case (derived parent child sy)
  from derived.hyps(3)
  have "enc child \<in> enc ` set (enqueued (fst (DCOPY_do_treewalk (\<lambda>x. x) cs opts sy parent)))"
    by (simp add: treewalk_naturality [of enc])
  then have "child \<in> set (enqueued (fst (DCOPY_do_treewalk (\<lambda>x. x) cs opts sy parent)))"
    using assms(1) by (auto dest: injD)
  then show ?case
    using treewalk_items derived.IH by fastforce
qed

text \<open>
  Claim C8: every operation enqueued by a callback carries the
  \<^verbatim>\<open>source_base_offset\<close> and \<^verbatim>\<open>dest_base_appendix\<close> of the operation at hand; every
  \<^verbatim>\<open>COPY\<close> item carries the full size of the file as \<^verbatim>\<open>lstat\<close> reported it; every
  \<^verbatim>\<open>TREEWALK\<close> item carries the \<^verbatim>\<open>file_size\<close> field of the operation at hand. Hence
  both base fields are constant on the traversal subtree of an initial item (for an
  injective encoder, so that the queue delivers what was enqueued).
\<close>

theorem derived_items_inherit:
  assumes "inj enc"
  shows "(\<exists>ops. enqueued (fst (DCOPY_do_treewalk enc cs opts sy op)) = map enc ops \<and>
       (\<forall>c \<in> set ops.
          source_base_offset c = source_base_offset op \<and>
          dest_base_appendix c = dest_base_appendix op \<and>
          (kind c = COPY \<longrightarrow>
             (\<exists>statbuf. lstat sy (operand op) = Some statbuf \<and> file_size c = st_size statbuf)) \<and>
          (kind c = TREEWALK \<longrightarrow> file_size c = file_size op))) \<and>
     (\<forall>c \<in> traversal_subtree enc cs opts root.
          source_base_offset c = source_base_offset root \<and>
          dest_base_appendix c = dest_base_appendix root)"
proof -
  let ?ops = "enqueued (fst (DCOPY_do_treewalk (\<lambda>x. x) cs opts sy op))"
  have "enqueued (fst (DCOPY_do_treewalk enc cs opts sy op)) = map enc ?ops"
    by (rule treewalk_naturality)
  moreover have "\<forall>c \<in> set ?ops.
          source_base_offset c = source_base_offset op \<and>
          dest_base_appendix c = dest_base_appendix op \<and>
          (kind c = COPY \<longrightarrow>
             (\<exists>statbuf. lstat sy (operand op) = Some statbuf \<and> file_size c = st_size statbuf)) \<and>
          (kind c = TREEWALK \<longrightarrow> file_size c = file_size op)"
    using treewalk_items by blast
  moreover have "\<forall>c \<in> traversal_subtree enc cs opts root.
          source_base_offset c = source_base_offset root \<and>
          dest_base_appendix c = dest_base_appendix root"
    using subtree_offsets [OF assms] by blast
  ultimately show ?thesis
    by blast
qed


theorem derived_items_inherit_witness:
  "inj (\<lambda>x :: operation. x) \<and>
   \<lparr>kind = COPY, chunk = 0, operand = ''/src/sub/d'', source_base_offset = 4,
    dest_base_appendix = None, file_size = 100\<rparr>
     \<in> set (enqueued (fst (DCOPY_do_treewalk (\<lambda>x. x) 4194304
          \<lparr>dest_path = ''/dst'', reliable_filesystem = True\<rparr>
          \<lparr>lstat = (\<lambda>p. if p = ''/src/sub/d'' then Some \<lparr>st_mode = 0x81A4, st_size = 100\<rparr>
                          else Some \<lparr>st_mode = 0x41ED, st_size = 4096\<rparr>),
           popen = (\<lambda>c. True), opendir = (\<lambda>p. if p = ''/src'' then Some [''.'', ''..'', ''sub''] else Some [''.'', ''..'', ''d''])\<rparr>
          \<lparr>kind = TREEWALK, chunk = 0, operand = ''/src/sub/d'', source_base_offset = 4,
           dest_base_appendix = None, file_size = 0\<rparr>))) \<and>
   \<lparr>kind = COPY, chunk = 0, operand = ''/src/sub/d'', source_base_offset = 4,
    dest_base_appendix = None, file_size = 100\<rparr>
     \<in> traversal_subtree (\<lambda>x. x) 4194304 \<lparr>dest_path = ''/dst'', reliable_filesystem = True\<rparr>
          \<lparr>kind = TREEWALK, chunk = 0, operand = ''/src'', source_base_offset = 4,
           dest_base_appendix = None, file_size = 0\<rparr> \<and>
   source_base_offset \<lparr>kind = COPY, chunk = 0, operand = ''/src/sub/d'', source_base_offset = 4,
      dest_base_appendix = None, file_size = 100\<rparr>
     = source_base_offset \<lparr>kind = TREEWALK, chunk = 0, operand = ''/src'', source_base_offset = 4,
         dest_base_appendix = None, file_size = 0\<rparr>"
proof -
  let ?enc = "\<lambda>x :: operation. x"
  let ?opts = "\<lparr>dest_path = ''/dst'', reliable_filesystem = True\<rparr>"
  let ?sy = "\<lparr>lstat = (\<lambda>p. if p = ''/src/sub/d'' then Some \<lparr>st_mode = 0x81A4, st_size = 100\<rparr>
                          else Some \<lparr>st_mode = 0x41ED, st_size = 4096\<rparr>),
           popen = (\<lambda>c. True), opendir = (\<lambda>p. if p = ''/src'' then Some [''.'', ''..'', ''sub''] else Some [''.'', ''..'', ''d''])\<rparr>"
  let ?root = "\<lparr>kind = TREEWALK, chunk = 0, operand = ''/src'', source_base_offset = 4,
           dest_base_appendix = None, file_size = 0\<rparr>"
  let ?sub = "\<lparr>kind = TREEWALK, chunk = 0, operand = ''/src/sub'', source_base_offset = 4,
           dest_base_appendix = None, file_size = 0\<rparr>"
  let ?d = "\<lparr>kind = TREEWALK, chunk = 0, operand = ''/src/sub/d'', source_base_offset = 4,
           dest_base_appendix = None, file_size = 0\<rparr>"
  let ?copy = "\<lparr>kind = COPY, chunk = 0, operand = ''/src/sub/d'', source_base_offset = 4,
    dest_base_appendix = None, file_size = 100\<rparr>"
  have modes: "S_ISDIR (0x41ED :: u32)" "\<not> S_ISLNK (0x41ED :: u32)"
    "\<not> S_ISDIR (0x81A4 :: u32)" "S_ISREG (0x81A4 :: u32)" "\<not> S_ISLNK (0x81A4 :: u32)"
    by (simp_all add: S_ISDIR_def S_ISREG_def S_ISLNK_def S_IFMT_def S_IFDIR_def S_IFREG_def S_IFLNK_def)
  have e1: "enqueued (fst (DCOPY_do_treewalk ?enc 4194304 ?opts ?sy ?root)) = [?sub]"
    by (simp add: DCOPY_do_treewalk_def DCOPY_stat_process_dir_def modes
        numeral_2_eq_2 numeral_3_eq_3)
  have e2: "enqueued (fst (DCOPY_do_treewalk ?enc 4194304 ?opts ?sy ?sub)) = [?d]"
    by (simp add: DCOPY_do_treewalk_def DCOPY_stat_process_dir_def modes
        numeral_2_eq_2 numeral_3_eq_3)
  have e3: "enqueued (fst (DCOPY_do_treewalk ?enc 4194304 ?opts ?sy ?d)) = [?copy]"
    by (simp add: DCOPY_do_treewalk_def modes process_file_enqueued code_chunk_indices_def
        copy_item_def)
  have "?root \<in> traversal_subtree ?enc 4194304 ?opts ?root"
    by (rule traversal_subtree.root)
  then have "?sub \<in> traversal_subtree ?enc 4194304 ?opts ?root"
    by (rule traversal_subtree.derived [where sy = ?sy]) (simp_all add: e1)
  then have "?d \<in> traversal_subtree ?enc 4194304 ?opts ?root"
    by (rule traversal_subtree.derived [where sy = ?sy]) (simp_all add: e2)
  then have member: "?copy \<in> traversal_subtree ?enc 4194304 ?opts ?root"
    by (rule traversal_subtree.derived [where sy = ?sy]) (simp_all add: e3)
  have i: "inj ?enc"
    by simp
  show ?thesis
    using i member e3 derived_items_inherit [OF i, of 4194304 ?opts ?sy ?d ?root]
    by simp
qed

section \<open>Round trip of the codec\<close>

lemma get_put_nat: "get_nat (put_nat n @ rest) = Some (n, rest)"
proof (induction n rule: put_nat.induct)
  case (1 n)
  show ?case
  proof (cases "n < 128")
    case True
    then show ?thesis
      by (subst put_nat.simps) simp
  next
    case False
    have byte: "(of_char (char_of (128 + n mod 128)) :: nat) = 128 + n mod 128"
      by (simp add: mod_less)
    have "get_nat (put_nat (n div 128) @ rest) = Some (n div 128, rest)"
      using "1.IH" False by simp
    then show ?thesis
      using False byte by (subst put_nat.simps) (simp del: put_nat.simps of_char_of)
  qed
qed

lemma get_put_bytes: "get_bytes (put_bytes s @ rest) = Some (s, rest)"
  by (simp add: get_bytes_def put_bytes_def get_put_nat del: put_nat.simps)

lemma get_put_kind: "get_kind (put_kind k) = Some k"
  by (cases k) (simp_all add: get_kind_def)

lemma get_put_opt: "get_opt (put_opt a @ rest) = Some (a, rest)"
  by (cases a) (simp_all add: get_put_bytes)

text \<open>
  Claim C3: decoding the encoding of an operation gives the operation back, field by
  field, whatever bytes the operand and the appendix hold.
\<close>

theorem decode_encode: "decode (encode op) = Inr op"
proof -
  have c: "unat (chunk op) < 2 ^ 32"
    using unsigned_less [of "chunk op"] by simp
  have f: "unat (file_size op) < 2 ^ 64"
    using unsigned_less [of "file_size op"] by simp
  have last: "get_nat (put_nat (unat (file_size op))) = Some (unat (file_size op), [])"
    using get_put_nat [of "unat (file_size op)" "[]"] by (simp del: put_nat.simps)
  show ?thesis
    using c f
    by (simp add: decode_def encode_def get_put_kind get_put_nat get_put_bytes get_put_opt last
        del: put_nat.simps)
qed

theorem decode_encode_witness:
  "encode \<lparr>kind = COPY, chunk = 300, operand = [CHR ''/'', CHR '':'', CHR 0x01, CHR 0xFF, CHR ''a''],
      source_base_offset = 1, dest_base_appendix = Some ''x:y'', file_size = 4294967297\<rparr>
     = [CHR 0x01, CHR 0x01, CHR 0xAC, CHR 0x02, CHR 0x05, CHR ''/'', CHR '':'', CHR 0x01, CHR 0xFF,
        CHR ''a'', CHR 0x01, CHR 0x01, CHR 0x03, CHR ''x'', CHR '':'', CHR ''y'',
        CHR 0x81, CHR 0x80, CHR 0x80, CHR 0x80, CHR 0x10] \<and>
   decode [CHR 0x01, CHR 0x01, CHR 0xAC, CHR 0x02, CHR 0x05, CHR ''/'', CHR '':'', CHR 0x01, CHR 0xFF,
        CHR ''a'', CHR 0x01, CHR 0x01, CHR 0x03, CHR ''x'', CHR '':'', CHR ''y'',
        CHR 0x81, CHR 0x80, CHR 0x80, CHR 0x80, CHR 0x10]
     = Inr \<lparr>kind = COPY, chunk = 300, operand = [CHR ''/'', CHR '':'', CHR 0x01, CHR 0xFF, CHR ''a''],
      source_base_offset = 1, dest_base_appendix = Some ''x:y'', file_size = 4294967297\<rparr>"
proof -
  have bytes: "encode \<lparr>kind = COPY, chunk = 300,
      operand = [CHR ''/'', CHR '':'', CHR 0x01, CHR 0xFF, CHR ''a''],
      source_base_offset = 1, dest_base_appendix = Some ''x:y'', file_size = 4294967297\<rparr>
     = [CHR 0x01, CHR 0x01, CHR 0xAC, CHR 0x02, CHR 0x05, CHR ''/'', CHR '':'', CHR 0x01, CHR 0xFF,
        CHR ''a'', CHR 0x01, CHR 0x01, CHR 0x03, CHR ''x'', CHR '':'', CHR ''y'',
        CHR 0x81, CHR 0x80, CHR 0x80, CHR 0x80, CHR 0x10]"
    by (simp add: encode_def put_bytes_def WIRE_VERSION_def char_of_eq_iff take_bit_eq_mod)
  show ?thesis
    using decode_encode [of "\<lparr>kind = COPY, chunk = 300,
      operand = [CHR ''/'', CHR '':'', CHR 0x01, CHR 0xFF, CHR ''a''],
      source_base_offset = 1, dest_base_appendix = Some ''x:y'', file_size = 4294967297\<rparr>"]
    by (simp only: bytes simp_thms)
qed

end
